theory Spec2Isabelle
  imports Main "HOL-Library.Log_Nat"
begin

section \<open>Python values used by leetcode\_assistant.py\<close>

subsection \<open>Strings\<close>

text \<open>
  A Python \<^verbatim>\<open>str\<close> is modelled as a HOL \<^typ>\<open>string\<close>: a list of characters with
  the codes 0..255, read as the code points U+0000..U+00FF (Latin-1); text with code points
  beyond that range is outside the model. On these code points \<^verbatim>\<open>str.lower\<close> maps
  65..90 (\<^verbatim>\<open>A\<close>..\<^verbatim>\<open>Z\<close>), 192..214 and 216..222 (the accented capitals) to the code
  32 higher and keeps every other character, and \<^verbatim>\<open>str.strip\<close> removes from both ends
  the characters for which \<^verbatim>\<open>str.isspace\<close> holds: 9..13, 28..32, 133 (next line) and
  160 (no-break space).
\<close>

definition lower_char :: "char \<Rightarrow> char" where
  "lower_char c =
     (let n = (of_char c :: nat) in
      if (65 \<le> n \<and> n \<le> 90) \<or> (192 \<le> n \<and> n \<le> 214) \<or> (216 \<le> n \<and> n \<le> 222)
      then char_of (n + 32) else c)"

definition lower :: "string \<Rightarrow> string" where
  "lower s = map lower_char s"

definition isspace :: "char \<Rightarrow> bool" where
  "isspace c =
     (let n = (of_char c :: nat) in
      (9 \<le> n \<and> n \<le> 13) \<or> (28 \<le> n \<and> n \<le> 32) \<or> n = 133 \<or> n = 160)"

definition strip :: "string \<Rightarrow> string" where
  "strip s = rev (dropWhile isspace (rev (dropWhile isspace s)))"

text \<open>Truthiness of an optional string: \<^verbatim>\<open>None\<close> and \<^verbatim>\<open>""\<close> are false.\<close>

definition truthy :: "string option \<Rightarrow> bool" where
  "truthy s = (case s of None \<Rightarrow> False | Some t \<Rightarrow> t \<noteq> [])"

subsection \<open>Dates and times\<close>

text \<open>
  A \<^verbatim>\<open>datetime\<close> is a count of microseconds since 0001-01-01 00:00:00 (Python keeps
  datetimes at microsecond resolution and adds a \<^verbatim>\<open>timedelta\<close> exactly). A string in
  \<^verbatim>\<open>DATE_FORMAT = "%Y-%m-%d %H:%M:%S"\<close> is represented by the count of whole seconds it
  denotes: \<^verbatim>\<open>strftime\<close> drops the microseconds and \<^verbatim>\<open>strptime\<close> reads the seconds
  back with microsecond 0. The upper end of Python's datetime range (year 9999) is not
  modelled; the clock readings of the program are far from it.
\<close>

type_synonym datetime = int
type_synonym timedelta = int
type_synonym timestamp = int

definition strftime :: "datetime \<Rightarrow> timestamp" where
  "strftime dt = dt div 1000000"

definition strptime :: "timestamp \<Rightarrow> datetime" where
  "strptime s = s * 1000000"

definition timedelta_days :: "int \<Rightarrow> timedelta" where
  "timedelta_days n = n * 86400 * 1000000"

text \<open>
  The constructor \<^verbatim>\<open>datetime(year, month, day, hour, minute, second, microsecond)\<close>,
  through the proleptic Gregorian day number that Python's datetime module uses. It is
  meant for valid calendar fields and serves to write concrete instants.
\<close>

definition is_leap :: "int \<Rightarrow> bool" where
  "is_leap y = (y mod 4 = 0 \<and> (y mod 100 \<noteq> 0 \<or> y mod 400 = 0))"

definition days_before_year :: "int \<Rightarrow> int" where
  "days_before_year year = (let y = year - 1 in y * 365 + y div 4 - y div 100 + y div 400)"

definition days_before_month :: "int \<Rightarrow> int \<Rightarrow> int" where
  "days_before_month year month =
     sum_list (take (nat (month - 1)) [31, 28, 31, 30, 31, 30, 31, 31, 30, 31, 30, 31])
     + (if 2 < month \<and> is_leap year then 1 else 0)"

definition ymd2ord :: "int \<Rightarrow> int \<Rightarrow> int \<Rightarrow> int" where
  "ymd2ord year month day = days_before_year year + days_before_month year month + day"

definition mk_datetime :: "int \<Rightarrow> int \<Rightarrow> int \<Rightarrow> int \<Rightarrow> int \<Rightarrow> int \<Rightarrow> int \<Rightarrow> datetime" where
  "mk_datetime year month day hour minute second microsecond =
     (((ymd2ord year month day - 1) * 86400 + hour * 3600 + minute * 60 + second) * 1000000
      + microsecond)"

subsection \<open>Floating point\<close>

text \<open>
  The session length is computed in binary64 floating point:
  \<^verbatim>\<open>(end_time - start_time).total_seconds() / 60\<close> and then \<^verbatim>\<open>round(minutes, 1)\<close>.
  A float is represented by the rational number it denotes. \<open>fl\<close> rounds a rational to
  the nearest binary64 value, ties to even (53 significant bits; the values here are far
  from overflow and from the subnormal range). \<^verbatim>\<open>total_seconds()\<close> is the correctly
  rounded quotient of the microsecond count by \<open>10^6\<close>, the division by 60 rounds once
  more, and \<^verbatim>\<open>round(x, 1)\<close> rounds the exact value of \<open>x\<close> to one decimal, ties to
  even; its result is kept as the decimal \<open>k / 10\<close> that the float prints as.
\<close>

definition round_half_even :: "rat \<Rightarrow> int" where
  "round_half_even x =
     (let f = \<lfloor>x\<rfloor>; r = x - of_int f in
      if r < 1 / 2 then f else if 1 / 2 < r then f + 1 else if even f then f else f + 1)"

definition pow2 :: "int \<Rightarrow> rat" where
  "pow2 k = (if 0 \<le> k then 2 ^ nat k else 1 / 2 ^ nat (- k))"

text \<open>The exponent \<open>e\<close> with \<open>2^e \<le> |x| < 2^(e+1)\<close>, for \<open>x \<noteq> 0\<close>.\<close>

definition binade :: "rat \<Rightarrow> int" where
  "binade x =
     (let (n, d) = quotient_of \<bar>x\<bar>; k = bitlen n - bitlen d in
      if pow2 k \<le> \<bar>x\<bar> then k else k - 1)"

definition fl :: "rat \<Rightarrow> rat" where
  "fl x =
     (if x = 0 then 0
      else let u = pow2 (binade x - 52) in of_int (round_half_even (x / u)) * u)"

definition total_seconds :: "timedelta \<Rightarrow> rat" where
  "total_seconds td = fl (of_int td / 1000000)"

definition py_round1 :: "rat \<Rightarrow> rat" where
  "py_round1 x = of_int (round_half_even (x * 10)) / 10"

subsection \<open>Dictionaries\<close>

text \<open>
  A Python \<^verbatim>\<open>dict\<close> keeps its keys in insertion order: it is an association list.
  Assigning to an existing key replaces the value in place; assigning to a new key appends.
\<close>

fun dict_get :: "('k \<times> 'v) list \<Rightarrow> 'k \<Rightarrow> 'v option" where
  "dict_get [] k = None"
| "dict_get ((k', v) # rest) k = (if k' = k then Some v else dict_get rest k)"

fun dict_set :: "('k \<times> 'v) list \<Rightarrow> 'k \<Rightarrow> 'v \<Rightarrow> ('k \<times> 'v) list" where
  "dict_set [] k v = [(k, v)]"
| "dict_set ((k', v') # rest) k v =
     (if k' = k then (k, v) # rest else (k', v') # dict_set rest k v)"

section \<open>The data of the program\<close>

record problem =
  title :: string
  slug :: string
  url :: string
  difficulty :: string
  topics :: "string list"
  attempts :: int
  last_status :: "string option"
  last_practiced :: "timestamp option"
  next_review :: "timestamp option"

record session =
  s_problem_id :: string
  s_start :: timestamp
  s_end :: timestamp
  s_minutes :: rat
  s_status :: string
  s_notes :: string

record data =
  problems :: "(string \<times> problem) list"
  sessions :: "session list"

datatype error = KeyError

text \<open>\<^verbatim>\<open>load_data\<close> when there is no data file.\<close>

definition empty_data :: data where
  "empty_data = \<lparr>problems = [], sessions = []\<rparr>"

section \<open>Scheduling\<close>

text \<open>
  \<^verbatim>\<open>schedule_next_review(status, difficulty)\<close> reads the clock itself; the reading is the
  first argument here.
\<close>

definition schedule_next_review :: "datetime \<Rightarrow> string option \<Rightarrow> string \<Rightarrow> timestamp" where
  "schedule_next_review now status diff =
     (let status = lower (case status of None \<Rightarrow> [] | Some s \<Rightarrow> s);
          delta = (if status = ''solved'' then
                     (if diff = ''easy'' then timedelta_days 3
                      else if diff = ''medium'' then timedelta_days 2
                      else timedelta_days 1)
                   else timedelta_days 1)
      in strftime (now + delta))"

section \<open>Catalog upsert\<close>

text \<open>
  \<^verbatim>\<open>normalize_difficulty\<close>: the only source of the difficulty strings that
  \<^verbatim>\<open>add_problem\<close> stores and that \<^verbatim>\<open>choose_problem\<close> filters by.
\<close>

definition normalize_difficulty :: "string \<Rightarrow> string option" where
  "normalize_difficulty diff =
     (let diff = strip (lower diff) in
      if diff \<in> set [''e'', ''easy''] then Some ''easy''
      else if diff \<in> set [''m'', ''medium'', ''med''] then Some ''medium''
      else if diff \<in> set [''h'', ''hard''] then Some ''hard''
      else None)"

text \<open>
  \<^verbatim>\<open>add_problem\<close>, lines 61 to 78: the answers to the prompts (title, slug, url,
  normalised difficulty, list of topics) are the arguments; the record is written under
  the slug, fresh or overwriting an older one.
\<close>

definition add_problem ::
  "data \<Rightarrow> string \<Rightarrow> string \<Rightarrow> string \<Rightarrow> string \<Rightarrow> string list \<Rightarrow> data" where
  "add_problem data ttl slg lnk diff tps =
     (let problem_id = slg in
      data\<lparr>problems := dict_set (problems data) problem_id
        \<lparr>title = ttl, slug = slg, url = lnk, difficulty = diff, topics = tps,
         attempts = 0, last_status = None, last_practiced = None, next_review = None\<rparr>\<rparr>)"

section \<open>Selection\<close>

text \<open>
  \<^verbatim>\<open>filter_problems\<close>: the clock reading \<open>now\<close> is an argument. The loop over the
  dictionary's items is \<open>filter_loop\<close>; each \<^verbatim>\<open>continue\<close> of the source is a branch
  that leaves \<open>result\<close> as it is.
\<close>

fun filter_loop ::
  "datetime \<Rightarrow> string option \<Rightarrow> string option \<Rightarrow> bool \<Rightarrow> (string \<times> problem) list
   \<Rightarrow> string list \<Rightarrow> string list" where
  "filter_loop now diff_filter topic_filter only_due [] result = result"
| "filter_loop now diff_filter topic_filter only_due ((pid, p) # rest) result =
     (if truthy diff_filter \<and> Some (difficulty p) \<noteq> diff_filter then
        filter_loop now diff_filter topic_filter only_due rest result
      else if (case topic_filter of None \<Rightarrow> False
               | Some tf \<Rightarrow> tf \<noteq> [] \<and> tf \<notin> set (map lower (topics p))) then
        filter_loop now diff_filter topic_filter only_due rest result
      else if only_due \<and> (case next_review p of None \<Rightarrow> False
                           | Some nr \<Rightarrow> now < strptime nr) then
        filter_loop now diff_filter topic_filter only_due rest result
      else filter_loop now diff_filter topic_filter only_due rest (result @ [pid]))"

definition filter_problems ::
  "datetime \<Rightarrow> data \<Rightarrow> string option \<Rightarrow> string option \<Rightarrow> bool \<Rightarrow> string list" where
  "filter_problems now data diff_filter topic_filter only_due =
     filter_loop now diff_filter topic_filter only_due (problems data) []"

text \<open>
  \<^verbatim>\<open>choose_problem\<close>, lines 127 to 142: how the typed answers become the filters that
  are handed to \<^verbatim>\<open>filter_problems\<close>. The four arguments are the answers to the four
  prompts (the last three are only asked when the first is \<^verbatim>\<open>y\<close>).
\<close>

definition choose_problem_filters ::
  "string \<Rightarrow> string \<Rightarrow> string \<Rightarrow> string \<Rightarrow> string option \<times> string option \<times> bool" where
  "choose_problem_filters use_input diff_input topic_input due_input =
     (if lower (strip use_input) = ''y'' then
        (let diff_input = strip diff_input;
             diff_filter = (if diff_input \<noteq> [] then normalize_difficulty diff_input else None);
             topic_input = lower (strip topic_input);
             topic_filter = (if topic_input \<noteq> [] then Some topic_input else None);
             only_due = (lower (strip due_input) = ''y'')
         in (diff_filter, topic_filter, only_due))
      else (None, None, False))"

definition choose_problem_candidates ::
  "datetime \<Rightarrow> data \<Rightarrow> string \<Rightarrow> string \<Rightarrow> string \<Rightarrow> string \<Rightarrow> string list" where
  "choose_problem_candidates now data use_input diff_input topic_input due_input =
     (case choose_problem_filters use_input diff_input topic_input due_input of
        (diff_filter, topic_filter, only_due) \<Rightarrow>
          filter_problems now data diff_filter topic_filter only_due)"

section \<open>Recording a session\<close>

text \<open>
  \<^verbatim>\<open>start_practice_session\<close>. What the environment supplies is passed in: \<open>pid\<close> is
  the value returned by \<^verbatim>\<open>choose_problem\<close>, \<open>start_time\<close> and \<open>end_time\<close> are the
  clock readings of lines 188 and 192, \<open>status\<close> is the answer that passed the check of
  lines 196 to 200 (one of solved, partial, unsolved), \<open>notes\<close> the stripped notes, and
  \<open>review_clock\<close> is the clock reading that \<^verbatim>\<open>schedule_next_review\<close> takes when it is
  called on line 208. The result pairs the exception raised, if any, with the store as
  it is when the function is left; the looked-up record is mutated in place, which is
  \<open>dict_set\<close> on its key.
\<close>

definition start_practice_session ::
  "data \<Rightarrow> string option \<Rightarrow> datetime \<Rightarrow> datetime \<Rightarrow> string \<Rightarrow> string \<Rightarrow> datetime
   \<Rightarrow> error option \<times> data" where
  "start_practice_session data pid start_time end_time status notes review_clock =
     (case pid of
        None \<Rightarrow> (None, data)
      | Some pid \<Rightarrow>
          (let minutes = fl (total_seconds (end_time - start_time) / 60) in
           case dict_get (problems data) pid of
             None \<Rightarrow> (Some KeyError, data)
           | Some problem \<Rightarrow>
               (let problem = problem\<lparr>attempts := attempts problem + 1\<rparr>;
                    problem = problem\<lparr>last_status := Some status\<rparr>;
                    problem = problem\<lparr>last_practiced := Some (strftime end_time)\<rparr>;
                    problem = problem\<lparr>next_review :=
                      Some (schedule_next_review review_clock (Some status) (difficulty problem))\<rparr>;
                    data = data\<lparr>problems := dict_set (problems data) pid problem\<rparr>;
                    session_record =
                      \<lparr>s_problem_id = pid, s_start = strftime start_time,
                       s_end = strftime end_time, s_minutes = py_round1 minutes,
                       s_status = status, s_notes = notes\<rparr>;
                    data = data\<lparr>sessions := sessions data @ [session_record]\<rparr>
                in (None, data))))"

section \<open>Statistics\<close>

text \<open>
  \<^verbatim>\<open>stats_overview\<close> prints; the printed values are returned as a record (the
  field \<open>solved_at_least_once\<close> is the number printed after the label
  \<^verbatim>\<open>Solved at least once:\<close>), next to the store as it is after the call. \<open>stats_loop\<close> is the loop over
  \<^verbatim>\<open>problems.values()\<close> with its two accumulators.
\<close>

record overview =
  total_problems :: nat
  total_sessions :: nat
  easy_count :: int
  medium_count :: int
  hard_count :: int
  solved_at_least_once :: int
  last_sessions :: "session list"

fun stats_loop ::
  "(string \<times> problem) list \<Rightarrow> (string \<times> int) list \<Rightarrow> int \<Rightarrow> (string \<times> int) list \<times> int" where
  "stats_loop [] by_difficulty solved_count = (by_difficulty, solved_count)"
| "stats_loop ((pid, p) # rest) by_difficulty solved_count =
     (let d = difficulty p;
          by_difficulty = (case dict_get by_difficulty d of
                             Some n \<Rightarrow> dict_set by_difficulty d (n + 1)
                           | None \<Rightarrow> by_difficulty);
          solved_count = (if last_status p = Some ''solved'' then solved_count + 1
                          else solved_count)
      in stats_loop rest by_difficulty solved_count)"

definition count_of :: "(string \<times> int) list \<Rightarrow> string \<Rightarrow> int" where
  "count_of by_difficulty d = (case dict_get by_difficulty d of Some n \<Rightarrow> n | None \<Rightarrow> 0)"

definition stats_overview :: "data \<Rightarrow> overview \<times> data" where
  "stats_overview data =
     (case stats_loop (problems data) [(''easy'', 0), (''medium'', 0), (''hard'', 0)] 0 of
        (by_difficulty, solved_count) \<Rightarrow>
          (\<lparr>total_problems = length (problems data),
            total_sessions = length (sessions data),
            easy_count = count_of by_difficulty ''easy'',
            medium_count = count_of by_difficulty ''medium'',
            hard_count = count_of by_difficulty ''hard'',
            solved_at_least_once = solved_count,
            last_sessions = drop (length (sessions data) - 5) (sessions data)\<rparr>,
           data))"

section \<open>Notions used to state the properties\<close>

text \<open>
  What one round of the loop of \<^verbatim>\<open>filter_problems\<close> decides for a problem: it is
  appended to the result when none of the three \<^verbatim>\<open>continue\<close> conditions holds.
\<close>

definition selected ::
  "datetime \<Rightarrow> string option \<Rightarrow> string option \<Rightarrow> bool \<Rightarrow> problem \<Rightarrow> bool" where
  "selected now diff_filter topic_filter only_due p =
     (\<not> (truthy diff_filter \<and> Some (difficulty p) \<noteq> diff_filter)
      \<and> \<not> (case topic_filter of None \<Rightarrow> False
              | Some tf \<Rightarrow> tf \<noteq> [] \<and> tf \<notin> set (map lower (topics p)))
      \<and> \<not> (only_due \<and> (case next_review p of None \<Rightarrow> False
                            | Some nr \<Rightarrow> now < strptime nr)))"

text \<open>The invariant of the data model on one problem record.\<close>

definition problem_invariant :: "problem \<Rightarrow> bool" where
  "problem_invariant p =
     ((attempts p = 0 \<longleftrightarrow> last_status p = None)
      \<and> (last_status p = None \<longleftrightarrow> last_practiced p = None)
      \<and> (next_review p \<noteq> None \<longleftrightarrow> last_practiced p \<noteq> None))"

text \<open>
  The invariant together with the counter being non-negative (the data model's
  non-negative attempts): this is what each write to a problem record preserves.
\<close>

definition sound :: "problem \<Rightarrow> bool" where
  "sound p = (problem_invariant p \<and> 0 \<le> attempts p)"

text \<open>
  The stores the program can reach: it starts from the empty store and changes it only
  through \<^verbatim>\<open>add_problem\<close> and \<^verbatim>\<open>start_practice_session\<close>.
\<close>

inductive reachable :: "data \<Rightarrow> bool" where
  loaded: "reachable empty_data"
| added: "reachable d \<Longrightarrow> reachable (add_problem d ttl slg lnk diff tps)"
| practised:
    "reachable d \<Longrightarrow>
     start_practice_session d pid start_time end_time status notes review_clock = (r, d') \<Longrightarrow>
     reachable d'"

text \<open>
  The count that the summary's field is specified to hold, in the spec's words: the
  problems of the catalog that have been solved in at least one session of the log.
\<close>

definition spec_solved_at_least_once :: "data \<Rightarrow> nat" where
  "spec_solved_at_least_once data =
     length (filter
       (\<lambda>(pid, p). \<exists>s \<in> set (sessions data). s_problem_id s = pid \<and> s_status s = ''solved'')
       (problems data))"

subsection \<open>Example stores\<close>

definition two_sum :: problem where
  "two_sum =
     \<lparr>title = ''Two Sum'', slug = ''two-sum'', url = ''https://leetcode.com/problems/two-sum/'',
      difficulty = ''easy'', topics = [''array'', ''hash-table''], attempts = 0,
      last_status = None, last_practiced = None, next_review = None\<rparr>"

definition rotate_array :: problem where
  "rotate_array =
     \<lparr>title = ''Rotate Array'', slug = ''rotate-array'',
      url = ''https://leetcode.com/problems/rotate-array/'',
      difficulty = ''medium'', topics = [''arrays''], attempts = 0,
      last_status = None, last_practiced = None, next_review = None\<rparr>"

definition two_sum_catalog :: data where
  "two_sum_catalog =
     add_problem empty_data ''Two Sum'' ''two-sum'' ''https://leetcode.com/problems/two-sum/''
       ''easy'' [''array'', ''hash-table'']"

definition two_problem_catalog :: data where
  "two_problem_catalog =
     add_problem two_sum_catalog ''Rotate Array'' ''rotate-array''
       ''https://leetcode.com/problems/rotate-array/'' ''medium'' [''arrays'']"

text \<open>
  Two sessions on the same problem: solved on 2024-01-01, then unsolved at the review
  on 2024-01-04.
\<close>

definition solved_then_unsolved :: data where
  "solved_then_unsolved =
     snd (start_practice_session
       (snd (start_practice_session two_sum_catalog (Some ''two-sum'')
          (mk_datetime 2024 1 1 10 0 0 0) (mk_datetime 2024 1 1 10 20 0 0) ''solved'' []
          (mk_datetime 2024 1 1 10 20 30 0)))
       (Some ''two-sum'')
       (mk_datetime 2024 1 4 18 0 0 0) (mk_datetime 2024 1 4 18 45 0 0) ''unsolved'' []
       (mk_datetime 2024 1 4 18 45 20 0))"

text \<open>
  The store expected after the session of the spec's example (solved, started at 10:00:00
  and ended at 10:20:00 on 2024-01-01) when the scheduler reads the clock in the second
  in which the session ended.
\<close>

definition two_sum_solved :: data where
  "two_sum_solved =
     \<lparr>problems =
        [(''two-sum'',
          \<lparr>title = ''Two Sum'', slug = ''two-sum'',
           url = ''https://leetcode.com/problems/two-sum/'',
           difficulty = ''easy'', topics = [''array'', ''hash-table''], attempts = 1,
           last_status = Some ''solved'',
           last_practiced = Some (strftime (mk_datetime 2024 1 1 10 20 0 0)),
           next_review = Some (strftime (mk_datetime 2024 1 4 10 20 0 0))\<rparr>)],
      sessions =
        [\<lparr>s_problem_id = ''two-sum'', s_start = strftime (mk_datetime 2024 1 1 10 0 0 0),
          s_end = strftime (mk_datetime 2024 1 1 10 20 0 0), s_minutes = 20,
          s_status = ''solved'', s_notes = []\<rparr>]\<rparr>"

text \<open>The store of the spec's example with a second, never practised problem added.\<close>

definition mixed_catalog :: data where
  "mixed_catalog =
     add_problem two_sum_solved ''Rotate Array'' ''rotate-array''
       ''https://leetcode.com/problems/rotate-array/'' ''medium'' [''arrays'']"

text \<open>
  A catalog whose only problem has the topic \<^verbatim>\<open>ECOLE\<close> written with a capital E acute
  (code 201) as its first letter.
\<close>

definition ecole_catalog :: data where
  "ecole_catalog =
     add_problem empty_data ''Word Break'' ''word-break''
       ''https://leetcode.com/problems/word-break/'' ''medium''
       [[CHR 0xC9, CHR ''C'', CHR ''O'', CHR ''L'', CHR ''E'']]"

section \<open>Properties\<close>

lemma lower_solved: "lower ''solved'' = ''solved''"
  by code_simp

lemma lower_partial: "lower ''partial'' = ''partial''"
  by code_simp

lemma lower_unsolved: "lower ''unsolved'' = ''unsolved''"
  by code_simp

lemma strftime_add_days: "strftime (now + timedelta_days n) = strftime now + n * 86400"
  by (simp add: strftime_def timedelta_days_def)

text \<open>
  Claim C1. For each of the outcomes solved, partial, unsolved and each of the difficulties
  easy, medium, hard, the timestamp returned by the scheduler, minus the timestamp of the
  clock reading, is the table's interval: 3, 2 and 1 days for a solved easy, medium and
  hard problem, 1 day for every partial or unsolved one. The function is total: it has no
  failing branch.
\<close>

theorem schedule_next_review_table:
  "schedule_next_review now (Some ''solved'') ''easy'' - strftime now = 3 * 86400
   \<and> schedule_next_review now (Some ''solved'') ''medium'' - strftime now = 2 * 86400
   \<and> schedule_next_review now (Some ''solved'') ''hard'' - strftime now = 1 * 86400
   \<and> schedule_next_review now (Some ''partial'') ''easy'' - strftime now = 1 * 86400
   \<and> schedule_next_review now (Some ''partial'') ''medium'' - strftime now = 1 * 86400
   \<and> schedule_next_review now (Some ''partial'') ''hard'' - strftime now = 1 * 86400
   \<and> schedule_next_review now (Some ''unsolved'') ''easy'' - strftime now = 1 * 86400
   \<and> schedule_next_review now (Some ''unsolved'') ''medium'' - strftime now = 1 * 86400
   \<and> schedule_next_review now (Some ''unsolved'') ''hard'' - strftime now = 1 * 86400"
  by (simp add: schedule_next_review_def lower_solved lower_partial lower_unsolved
      strftime_add_days)

subsection \<open>Dictionaries\<close>

lemma dict_get_None_iff: "dict_get ps k = None \<longleftrightarrow> k \<notin> fst ` set ps"
  by (induction ps) (auto split: if_splits)

lemma dict_get_set_same: "dict_get (dict_set ps k v) k = Some v"
  by (induction ps) auto

lemma dict_get_set_other: "k' \<noteq> k \<Longrightarrow> dict_get (dict_set ps k v) k' = dict_get ps k'"
  by (induction ps) auto

lemma dict_set_keys: "dict_get ps k = Some v0 \<Longrightarrow> map fst (dict_set ps k v) = map fst ps"
  by (induction ps) (auto split: if_splits)

lemma dict_set_others:
  "dict_get ps k = Some v0 \<Longrightarrow>
   filter (\<lambda>(k', v'). k' \<noteq> k) (dict_set ps k v) = filter (\<lambda>(k', v'). k' \<noteq> k) ps"
  by (induction ps) (auto split: if_splits)

subsection \<open>Recording a session\<close>

lemma schedule_same_second:
  "strftime a = strftime b \<Longrightarrow> schedule_next_review a st diff = schedule_next_review b st diff"
  by (simp add: schedule_next_review_def Let_def strftime_add_days)

lemma start_practice_session_found:
  assumes "dict_get (problems d) pid = Some p"
    and "start_practice_session d (Some pid) start_time end_time status notes review_clock = (r, d')"
  shows "r = None"
    and "problems d' = dict_set (problems d) pid
      (p\<lparr>attempts := attempts p + 1, last_status := Some status,
         last_practiced := Some (strftime end_time),
         next_review := Some (schedule_next_review review_clock (Some status) (difficulty p))\<rparr>)"
    and "sessions d' = sessions d @ [\<lparr>s_problem_id = pid, s_start = strftime start_time,
        s_end = strftime end_time,
        s_minutes = py_round1 (fl (total_seconds (end_time - start_time) / 60)),
        s_status = status, s_notes = notes\<rparr>]"
  using assms by (auto simp: start_practice_session_def Let_def)

text \<open>
  Claim C2, as the code has it. A session recorded on an existing slug completes without
  error; the problem's attempts grow by 1, last\_status is the status, last\_practiced is
  the end timestamp, and next\_review is the scheduler's result for the status and the
  problem's difficulty at the clock reading the scheduler takes when it is called (after
  the status and the notes have been typed), not at the session's end; the two agree when
  that reading falls in the same second as the end. The appended session holds the start
  and end timestamps and minutes = round((end - start) in minutes, 1 decimal).
\<close>

theorem start_practice_session_effect:
  "dict_get (problems d) pid = Some p \<Longrightarrow>
   start_practice_session d (Some pid) start_time end_time status notes review_clock = (r, d') \<Longrightarrow>
   r = None
   \<and> dict_get (problems d') pid = Some (p\<lparr>attempts := attempts p + 1, last_status := Some status,
        last_practiced := Some (strftime end_time),
        next_review := Some (schedule_next_review review_clock (Some status) (difficulty p))\<rparr>)
   \<and> sessions d' = sessions d @ [\<lparr>s_problem_id = pid, s_start = strftime start_time,
        s_end = strftime end_time,
        s_minutes = py_round1 (fl (total_seconds (end_time - start_time) / 60)),
        s_status = status, s_notes = notes\<rparr>]
   \<and> (strftime review_clock = strftime end_time \<longrightarrow>
        schedule_next_review review_clock (Some status) (difficulty p)
          = schedule_next_review end_time (Some status) (difficulty p))"
proof -
  assume found: "dict_get (problems d) pid = Some p"
    and run: "start_practice_session d (Some pid) start_time end_time status notes review_clock
      = (r, d')"
  note eff = start_practice_session_found [OF found run]
  have "dict_get (problems d') pid = Some (p\<lparr>attempts := attempts p + 1,
        last_status := Some status, last_practiced := Some (strftime end_time),
        next_review := Some (schedule_next_review review_clock (Some status) (difficulty p))\<rparr>)"
    unfolding eff(2) by (rule dict_get_set_same)
  moreover have "strftime review_clock = strftime end_time \<longrightarrow>
        schedule_next_review review_clock (Some status) (difficulty p)
          = schedule_next_review end_time (Some status) (difficulty p)"
    using schedule_same_second by blast
  ultimately show ?thesis
    using eff(1) eff(3) by (intro conjI)
qed

theorem start_practice_session_effect_witness:
  "dict_get (problems two_sum_catalog) ''two-sum'' = Some two_sum
   \<and> start_practice_session two_sum_catalog (Some ''two-sum'')
        (mk_datetime 2024 1 1 10 0 0 0) (mk_datetime 2024 1 1 10 20 0 0) ''solved'' []
        (mk_datetime 2024 1 1 10 20 0 0) = (None, two_sum_solved)
   \<and> dict_get (problems two_sum_solved) ''two-sum''
        = Some (two_sum\<lparr>attempts := attempts two_sum + 1, last_status := Some ''solved'',
            last_practiced := Some (strftime (mk_datetime 2024 1 1 10 20 0 0)),
            next_review := Some (schedule_next_review (mk_datetime 2024 1 1 10 20 0 0)
              (Some ''solved'') (difficulty two_sum))\<rparr>)
   \<and> schedule_next_review (mk_datetime 2024 1 1 10 20 0 0) (Some ''solved'') (difficulty two_sum)
        = strftime (mk_datetime 2024 1 4 10 20 0 0)
   \<and> map s_minutes (sessions two_sum_solved) = [20]"
proof -
  have h1: "dict_get (problems two_sum_catalog) ''two-sum'' = Some two_sum"
    by code_simp
  have h2: "start_practice_session two_sum_catalog (Some ''two-sum'')
        (mk_datetime 2024 1 1 10 0 0 0) (mk_datetime 2024 1 1 10 20 0 0) ''solved'' []
        (mk_datetime 2024 1 1 10 20 0 0) = (None, two_sum_solved)"
    by code_simp
  have e1: "schedule_next_review (mk_datetime 2024 1 1 10 20 0 0) (Some ''solved'')
        (difficulty two_sum) = strftime (mk_datetime 2024 1 4 10 20 0 0)"
    by code_simp
  have e2: "map s_minutes (sessions two_sum_solved) = [20]"
    by code_simp
  from start_practice_session_effect [OF h1 h2]
  have "dict_get (problems two_sum_solved) ''two-sum''
        = Some (two_sum\<lparr>attempts := attempts two_sum + 1, last_status := Some ''solved'',
            last_practiced := Some (strftime (mk_datetime 2024 1 1 10 20 0 0)),
            next_review := Some (schedule_next_review (mk_datetime 2024 1 1 10 20 0 0)
              (Some ''solved'') (difficulty two_sum))\<rparr>)"
    by (elim conjE)
  with h1 h2 e1 e2 show ?thesis by (intro conjI)
qed

text \<open>
  The claim as stated fails: the session of the spec's example ends at 10:20:00, the
  scheduler is called 30 seconds later, and next\_review is 2024-01-04 10:20:30, not the
  2024-01-04 10:20:00 that the end timestamp would give.
\<close>

theorem next_review_not_from_end_counterexample:
  "map (next_review \<circ> snd) (problems (snd (start_practice_session two_sum_catalog (Some ''two-sum'')
        (mk_datetime 2024 1 1 10 0 0 0) (mk_datetime 2024 1 1 10 20 0 0) ''solved'' []
        (mk_datetime 2024 1 1 10 20 30 0))))
     = [Some (strftime (mk_datetime 2024 1 4 10 20 30 0))]
   \<and> schedule_next_review (mk_datetime 2024 1 1 10 20 0 0) (Some ''solved'') ''easy''
     = strftime (mk_datetime 2024 1 4 10 20 0 0)
   \<and> strftime (mk_datetime 2024 1 4 10 20 30 0) \<noteq> strftime (mk_datetime 2024 1 4 10 20 0 0)"
  by code_simp

subsection \<open>A clock that was set back during the session\<close>

lemma round_half_even_nonpos: "x \<le> 0 \<Longrightarrow> round_half_even x \<le> 0"
proof -
  assume x: "x \<le> 0"
  have f0: "\<lfloor>x\<rfloor> \<le> 0" using x by linarith
  show ?thesis
  proof (cases "x - of_int \<lfloor>x\<rfloor> < 1 / 2")
    case True
    then show ?thesis using f0 unfolding round_half_even_def Let_def by presburger
  next
    case False
    have "\<lfloor>x\<rfloor> \<noteq> 0"
    proof
      assume "\<lfloor>x\<rfloor> = 0"
      with False x show False by simp
    qed
    with f0 have "\<lfloor>x\<rfloor> + 1 \<le> 0" by linarith
    then show ?thesis using f0 unfolding round_half_even_def Let_def by presburger
  qed
qed

lemma pow2_pos: "0 < pow2 k"
  by (simp add: pow2_def)

lemma fl_nonpos: "x \<le> 0 \<Longrightarrow> fl x \<le> 0"
proof -
  assume x: "x \<le> 0"
  have "x / pow2 (binade x - 52) \<le> 0"
    using x pow2_pos [of "binade x - 52"] by (simp add: divide_nonpos_pos)
  then have "round_half_even (x / pow2 (binade x - 52)) \<le> 0"
    by (rule round_half_even_nonpos)
  then have "of_int (round_half_even (x / pow2 (binade x - 52))) * pow2 (binade x - 52) \<le> (0::rat)"
    using pow2_pos [of "binade x - 52"] by (simp add: mult_le_0_iff)
  then show ?thesis by (simp add: fl_def Let_def)
qed

lemma minutes_nonpos:
  assumes "end_time < start_time"
  shows "py_round1 (fl (total_seconds (end_time - start_time) / 60)) \<le> 0"
proof -
  have "(of_int (end_time - start_time) :: rat) / 1000000 \<le> 0"
    using assms by simp
  then have "total_seconds (end_time - start_time) \<le> 0"
    unfolding total_seconds_def by (rule fl_nonpos)
  then have "total_seconds (end_time - start_time) / 60 \<le> 0" by simp
  then have "fl (total_seconds (end_time - start_time) / 60) \<le> 0" by (rule fl_nonpos)
  then have "fl (total_seconds (end_time - start_time) / 60) * 10 \<le> 0" by simp
  then have "round_half_even (fl (total_seconds (end_time - start_time) / 60) * 10) \<le> 0"
    by (rule round_half_even_nonpos)
  then show ?thesis by (simp add: py_round1_def)
qed

text \<open>
  Claim C5, as the code has it. When the end reading is before the start reading, the
  session is still recorded without error, and its minutes are the rounded difference
  itself: there is no clamping, the recorded value is zero or negative.
\<close>

theorem start_practice_session_end_before_start:
  "end_time < start_time \<Longrightarrow>
   dict_get (problems d) pid = Some p \<Longrightarrow>
   start_practice_session d (Some pid) start_time end_time status notes review_clock = (r, d') \<Longrightarrow>
   r = None
   \<and> sessions d' = sessions d @ [last (sessions d')]
   \<and> s_minutes (last (sessions d')) = py_round1 (fl (total_seconds (end_time - start_time) / 60))
   \<and> s_minutes (last (sessions d')) \<le> 0"
proof -
  assume before: "end_time < start_time"
    and found: "dict_get (problems d) pid = Some p"
    and run: "start_practice_session d (Some pid) start_time end_time status notes review_clock
      = (r, d')"
  note eff = start_practice_session_found [OF found run]
  show ?thesis
    using eff(1) minutes_nonpos [OF before] by (simp add: eff(3))
qed

theorem start_practice_session_end_before_start_witness:
  "mk_datetime 2024 1 1 9 59 30 0 < mk_datetime 2024 1 1 10 0 0 0
   \<and> dict_get (problems two_sum_catalog) ''two-sum'' = Some two_sum
   \<and> fst (start_practice_session two_sum_catalog (Some ''two-sum'')
        (mk_datetime 2024 1 1 10 0 0 0) (mk_datetime 2024 1 1 9 59 30 0) ''partial'' []
        (mk_datetime 2024 1 1 9 59 40 0)) = None
   \<and> s_minutes (last (sessions (snd (start_practice_session two_sum_catalog (Some ''two-sum'')
        (mk_datetime 2024 1 1 10 0 0 0) (mk_datetime 2024 1 1 9 59 30 0) ''partial'' []
        (mk_datetime 2024 1 1 9 59 40 0))))) \<le> 0
   \<and> s_minutes (last (sessions (snd (start_practice_session two_sum_catalog (Some ''two-sum'')
        (mk_datetime 2024 1 1 10 0 0 0) (mk_datetime 2024 1 1 9 59 30 0) ''partial'' []
        (mk_datetime 2024 1 1 9 59 40 0))))) = - 1 / 2"
proof -
  have h1: "mk_datetime 2024 1 1 9 59 30 0 < mk_datetime 2024 1 1 10 0 0 0"
    by code_simp
  have h2: "dict_get (problems two_sum_catalog) ''two-sum'' = Some two_sum"
    by code_simp
  have e: "s_minutes (last (sessions (snd (start_practice_session two_sum_catalog (Some ''two-sum'')
        (mk_datetime 2024 1 1 10 0 0 0) (mk_datetime 2024 1 1 9 59 30 0) ''partial'' []
        (mk_datetime 2024 1 1 9 59 40 0))))) = - 1 / 2"
    by code_simp
  have run: "start_practice_session two_sum_catalog (Some ''two-sum'')
        (mk_datetime 2024 1 1 10 0 0 0) (mk_datetime 2024 1 1 9 59 30 0) ''partial'' []
        (mk_datetime 2024 1 1 9 59 40 0)
      = (fst (start_practice_session two_sum_catalog (Some ''two-sum'')
          (mk_datetime 2024 1 1 10 0 0 0) (mk_datetime 2024 1 1 9 59 30 0) ''partial'' []
          (mk_datetime 2024 1 1 9 59 40 0)),
         snd (start_practice_session two_sum_catalog (Some ''two-sum'')
          (mk_datetime 2024 1 1 10 0 0 0) (mk_datetime 2024 1 1 9 59 30 0) ''partial'' []
          (mk_datetime 2024 1 1 9 59 40 0)))"
    by (rule prod.collapse [symmetric])
  note t = start_practice_session_end_before_start [OF h1 h2 run]
  note t1 = t [THEN conjunct1]
  note t4 = t [THEN conjunct2, THEN conjunct2, THEN conjunct2]
  from h1 h2 t1 t4 e show ?thesis by (intro conjI)
qed

text \<open>
  The claim as stated fails: with the end reading one minute before the start reading the
  recorded minutes are -1.0, not 0.
\<close>

theorem minutes_not_clamped_counterexample:
  "mk_datetime 2024 1 1 9 59 0 0 < mk_datetime 2024 1 1 10 0 0 0
   \<and> fst (start_practice_session two_sum_catalog (Some ''two-sum'')
        (mk_datetime 2024 1 1 10 0 0 0) (mk_datetime 2024 1 1 9 59 0 0) ''solved'' []
        (mk_datetime 2024 1 1 9 59 5 0)) = None
   \<and> map s_minutes (sessions (snd (start_practice_session two_sum_catalog (Some ''two-sum'')
        (mk_datetime 2024 1 1 10 0 0 0) (mk_datetime 2024 1 1 9 59 0 0) ''solved'' []
        (mk_datetime 2024 1 1 9 59 5 0)))) = [- 1]"
  by code_simp

subsection \<open>An unknown slug, and the frame of a recorded session\<close>

text \<open>
  Claim C6. For a slug that is not a key of the catalog the lookup of line 204 raises
  \<^verbatim>\<open>KeyError\<close> (the spec's UnknownProblem) before anything is written: the catalog and
  the session log are left exactly as they were.
\<close>

theorem start_practice_session_unknown_problem:
  "pid \<notin> fst ` set (problems d) \<Longrightarrow>
   start_practice_session d (Some pid) start_time end_time status notes review_clock
     = (Some KeyError, d)"
  by (simp add: start_practice_session_def dict_get_None_iff [symmetric] Let_def)

theorem start_practice_session_unknown_problem_witness:
  "''three-sum'' \<notin> fst ` set (problems two_sum_solved)
   \<and> start_practice_session two_sum_solved (Some ''three-sum'')
        (mk_datetime 2024 1 2 9 0 0 0) (mk_datetime 2024 1 2 9 30 0 0) ''solved'' ''sorted first''
        (mk_datetime 2024 1 2 9 30 10 0) = (Some KeyError, two_sum_solved)"
proof -
  have h: "''three-sum'' \<notin> fst ` set (problems two_sum_solved)"
    by code_simp
  from h start_practice_session_unknown_problem [OF h] show ?thesis
    by (rule conjI)
qed

text \<open>
  Claim C9. After a session recorded on a slug, the entries of the catalog under every
  other slug are the same records in the same order, the keys are unchanged, and the
  session log is the old log followed by exactly one record.
\<close>

theorem start_practice_session_frame:
  "start_practice_session d (Some pid) start_time end_time status notes review_clock = (None, d')
   \<Longrightarrow> filter (\<lambda>(k, p). k \<noteq> pid) (problems d') = filter (\<lambda>(k, p). k \<noteq> pid) (problems d)
     \<and> map fst (problems d') = map fst (problems d)
     \<and> (\<forall>k. k \<noteq> pid \<longrightarrow> dict_get (problems d') k = dict_get (problems d) k)
     \<and> sessions d' = sessions d @ [last (sessions d')]"
proof -
  assume run: "start_practice_session d (Some pid) start_time end_time status notes review_clock
      = (None, d')"
  obtain p where found: "dict_get (problems d) pid = Some p"
    using run
    by (cases "dict_get (problems d) pid") (simp_all add: start_practice_session_def Let_def)
  note eff = start_practice_session_found [OF found run]
  have "filter (\<lambda>(k, p). k \<noteq> pid) (problems d') = filter (\<lambda>(k, p). k \<noteq> pid) (problems d)"
    unfolding eff(2) using found by (rule dict_set_others)
  moreover have "map fst (problems d') = map fst (problems d)"
    unfolding eff(2) using found by (rule dict_set_keys)
  moreover have "\<forall>k. k \<noteq> pid \<longrightarrow> dict_get (problems d') k = dict_get (problems d) k"
    unfolding eff(2) by (simp add: dict_get_set_other)
  moreover have "sessions d' = sessions d @ [last (sessions d')]"
    by (simp add: eff(3))
  ultimately show ?thesis by (intro conjI)
qed

theorem start_practice_session_frame_witness:
  "fst (start_practice_session two_problem_catalog (Some ''two-sum'')
        (mk_datetime 2024 1 1 10 0 0 0) (mk_datetime 2024 1 1 10 20 0 0) ''partial'' []
        (mk_datetime 2024 1 1 10 20 30 0)) = None
   \<and> dict_get (problems (snd (start_practice_session two_problem_catalog (Some ''two-sum'')
        (mk_datetime 2024 1 1 10 0 0 0) (mk_datetime 2024 1 1 10 20 0 0) ''partial'' []
        (mk_datetime 2024 1 1 10 20 30 0)))) ''rotate-array''
       = dict_get (problems two_problem_catalog) ''rotate-array''
   \<and> dict_get (problems two_problem_catalog) ''rotate-array'' = Some rotate_array
   \<and> map fst (problems (snd (start_practice_session two_problem_catalog (Some ''two-sum'')
        (mk_datetime 2024 1 1 10 0 0 0) (mk_datetime 2024 1 1 10 20 0 0) ''partial'' []
        (mk_datetime 2024 1 1 10 20 30 0)))) = [''two-sum'', ''rotate-array'']
   \<and> length (sessions (snd (start_practice_session two_problem_catalog (Some ''two-sum'')
        (mk_datetime 2024 1 1 10 0 0 0) (mk_datetime 2024 1 1 10 20 0 0) ''partial'' []
        (mk_datetime 2024 1 1 10 20 30 0)))) = 1"
proof -
  have h: "fst (start_practice_session two_problem_catalog (Some ''two-sum'')
        (mk_datetime 2024 1 1 10 0 0 0) (mk_datetime 2024 1 1 10 20 0 0) ''partial'' []
        (mk_datetime 2024 1 1 10 20 30 0)) = None"
    by code_simp
  have ne: "''rotate-array'' \<noteq> ''two-sum''"
    by simp
  have e1: "dict_get (problems two_problem_catalog) ''rotate-array'' = Some rotate_array"
    by code_simp
  have e2: "map fst (problems (snd (start_practice_session two_problem_catalog (Some ''two-sum'')
        (mk_datetime 2024 1 1 10 0 0 0) (mk_datetime 2024 1 1 10 20 0 0) ''partial'' []
        (mk_datetime 2024 1 1 10 20 30 0)))) = [''two-sum'', ''rotate-array'']"
    by code_simp
  have e3: "length (sessions (snd (start_practice_session two_problem_catalog (Some ''two-sum'')
        (mk_datetime 2024 1 1 10 0 0 0) (mk_datetime 2024 1 1 10 20 0 0) ''partial'' []
        (mk_datetime 2024 1 1 10 20 30 0)))) = 1"
    by code_simp
  have run: "start_practice_session two_problem_catalog (Some ''two-sum'')
        (mk_datetime 2024 1 1 10 0 0 0) (mk_datetime 2024 1 1 10 20 0 0) ''partial'' []
        (mk_datetime 2024 1 1 10 20 30 0)
      = (None, snd (start_practice_session two_problem_catalog (Some ''two-sum'')
        (mk_datetime 2024 1 1 10 0 0 0) (mk_datetime 2024 1 1 10 20 0 0) ''partial'' []
        (mk_datetime 2024 1 1 10 20 30 0)))"
    unfolding h [symmetric] by (rule prod.collapse [symmetric])
  note t = start_practice_session_frame [OF run]
  note t3 = t [THEN conjunct2, THEN conjunct2, THEN conjunct1, THEN spec, THEN mp, OF ne]
  from h t3 e1 e2 e3 show ?thesis by (intro conjI)
qed

subsection \<open>Selection\<close>

lemma filter_loop_eq:
  "filter_loop now df tf od ps result
     = result @ map fst (filter (\<lambda>(pid, p). selected now df tf od p) ps)"
  by (induction ps arbitrary: result) (auto simp: selected_def)

lemma selected_only_due:
  "selected now df tf True p \<longleftrightarrow>
     selected now df tf False p
     \<and> (next_review p = None \<or> (\<exists>nr. next_review p = Some nr \<and> strptime nr \<le> now))"
  by (auto simp: selected_def split: option.splits)

lemma selected_no_filters: "selected now None None False p"
  by (simp add: selected_def truthy_def)

text \<open>
  Claim C7. With only\_due set, what \<^verbatim>\<open>filter_problems\<close> returns are the slugs, in
  catalog order, of the problems that pass the difficulty and topic filters and whose
  next\_review is null or not after the clock reading; so a never practised problem that
  passes the other filters is in the result. With no filter at all the result is the list
  of all slugs of the catalog.
\<close>

theorem filter_problems_only_due:
  "filter_problems now d diff_filter topic_filter True
     = map fst (filter (\<lambda>(pid, p). selected now diff_filter topic_filter False p
         \<and> (next_review p = None \<or> (\<exists>nr. next_review p = Some nr \<and> strptime nr \<le> now)))
       (problems d))
   \<and> ((pid, p) \<in> set (problems d) \<and> next_review p = None
        \<and> selected now diff_filter topic_filter False p
      \<longrightarrow> pid \<in> set (filter_problems now d diff_filter topic_filter True))
   \<and> filter_problems now d None None False = map fst (problems d)"
proof -
  have a: "filter_problems now d diff_filter topic_filter True
     = map fst (filter (\<lambda>(pid, p). selected now diff_filter topic_filter False p
         \<and> (next_review p = None \<or> (\<exists>nr. next_review p = Some nr \<and> strptime nr \<le> now)))
       (problems d))"
    by (simp add: filter_problems_def filter_loop_eq selected_only_due)
  have b: "(pid, p) \<in> set (problems d) \<and> next_review p = None
        \<and> selected now diff_filter topic_filter False p
      \<longrightarrow> pid \<in> set (filter_problems now d diff_filter topic_filter True)"
    unfolding a by force
  have c: "filter_problems now d None None False = map fst (problems d)"
    by (simp add: filter_problems_def filter_loop_eq selected_no_filters)
  from a b c show ?thesis by (intro conjI)
qed

theorem filter_problems_only_due_witness:
  "(''rotate-array'', rotate_array) \<in> set (problems mixed_catalog)
   \<and> next_review rotate_array = None
   \<and> selected (mk_datetime 2024 1 2 8 0 0 0) (Some ''medium'') (Some ''arrays'') False rotate_array
   \<and> ''rotate-array'' \<in> set (filter_problems (mk_datetime 2024 1 2 8 0 0 0) mixed_catalog
        (Some ''medium'') (Some ''arrays'') True)
   \<and> filter_problems (mk_datetime 2024 1 2 8 0 0 0) mixed_catalog None None True
        = [''rotate-array'']
   \<and> filter_problems (mk_datetime 2024 1 4 10 20 0 0) mixed_catalog None None True
        = [''two-sum'', ''rotate-array'']
   \<and> filter_problems (mk_datetime 2024 1 2 8 0 0 0) mixed_catalog None None False
        = [''two-sum'', ''rotate-array'']"
proof -
  have h1: "(''rotate-array'', rotate_array) \<in> set (problems mixed_catalog)"
    by code_simp
  have h2: "next_review rotate_array = None"
    by code_simp
  have h3: "selected (mk_datetime 2024 1 2 8 0 0 0) (Some ''medium'') (Some ''arrays'') False
      rotate_array"
    by code_simp
  have e1: "filter_problems (mk_datetime 2024 1 2 8 0 0 0) mixed_catalog None None True
        = [''rotate-array'']"
    by code_simp
  have e2: "filter_problems (mk_datetime 2024 1 4 10 20 0 0) mixed_catalog None None True
        = [''two-sum'', ''rotate-array'']"
    by code_simp
  have e3: "filter_problems (mk_datetime 2024 1 2 8 0 0 0) mixed_catalog None None False
        = [''two-sum'', ''rotate-array'']"
    by code_simp
  note t = filter_problems_only_due [of "mk_datetime 2024 1 2 8 0 0 0" mixed_catalog
      "Some ''medium''" "Some ''arrays''" "''rotate-array''" rotate_array]
  note t2 = t [THEN conjunct2, THEN conjunct1, THEN mp, OF conjI [OF h1 conjI [OF h2 h3]]]
  from h1 h2 h3 t2 e1 e2 e3 show ?thesis by (intro conjI)
qed

lemma lower_eq_Nil: "lower s = [] \<longleftrightarrow> s = []"
  by (simp add: lower_def)

lemma selected_topic:
  "tf \<noteq> [] \<Longrightarrow>
   selected now df (Some tf) od p
     \<longleftrightarrow> selected now df None od p \<and> tf \<in> set (map lower (topics p))"
  by (auto simp: selected_def)

lemma filter_problems_topic:
  assumes "tf \<noteq> []"
  shows "filter_problems now d df (Some tf) od
     = map fst (filter (\<lambda>(pid, p). selected now df None od p \<and> tf \<in> set (map lower (topics p)))
         (problems d))"
  unfolding filter_problems_def filter_loop_eq selected_topic [OF assms] by simp

lemma filter_problems_empty_topic:
  "filter_problems now d df (Some []) od = filter_problems now d df None od"
  by (simp add: filter_problems_def filter_loop_eq selected_def)

lemma choose_problem_filters_topic:
  assumes "lower (strip use_input) = ''y''" and "strip topic_input \<noteq> []"
  shows "choose_problem_filters use_input diff_input topic_input due_input
     = (if strip diff_input \<noteq> [] then normalize_difficulty (strip diff_input) else None,
        Some (lower (strip topic_input)),
        lower (strip due_input) = ''y'')"
  using assms by (simp add: choose_problem_filters_def Let_def lower_eq_Nil)

lemma lowered_member:
  "lower s \<in> set (map lower ts) \<longleftrightarrow> (\<exists>t \<in> set ts. lower t = lower s)"
proof
  assume "lower s \<in> set (map lower ts)"
  then obtain t where "t \<in> set ts" and "lower s = lower t"
    by auto
  then show "\<exists>t \<in> set ts. lower t = lower s"
    by (intro bexI [of _ t]) simp_all
next
  assume "\<exists>t \<in> set ts. lower t = lower s"
  then obtain t where t: "t \<in> set ts" and eq: "lower t = lower s"
    by blast
  from t have "lower t \<in> set (map lower ts)"
    by simp
  then show "lower s \<in> set (map lower ts)"
    unfolding eq .
qed

text \<open>
  Claim C4. The topic filter is an exact, case-insensitive membership test on the
  problem's topics, composed with the other filters. \<^verbatim>\<open>filter_problems\<close> keeps a
  problem under a non-empty topic filter exactly when the other filters pass and the
  filter string, as it is passed, is the lower-cased form of one of the topics (the whole
  string, no substring match); an empty filter string is no filter. The filter is
  lower-cased where it is read, in \<^verbatim>\<open>choose_problem\<close>, which also strips it: so for
  every typed text that is not blank, the problem is kept exactly when the other filters
  pass and the stripped text equals one of the topics up to case.
\<close>

theorem filter_problems_topic_filter:
  "(tf \<noteq> [] \<longrightarrow>
      filter_problems now d diff_filter (Some tf) only_due
        = map fst (filter
            (\<lambda>(pid, p). selected now diff_filter None only_due p
               \<and> tf \<in> set (map lower (topics p)))
            (problems d)))
   \<and> (lower (strip use_input) = ''y'' \<and> strip topic_input \<noteq> [] \<longrightarrow>
      choose_problem_candidates now d use_input diff_input topic_input due_input
        = map fst (filter
            (\<lambda>(pid, p).
               selected now
                 (if strip diff_input \<noteq> [] then normalize_difficulty (strip diff_input) else None)
                 None (lower (strip due_input) = ''y'') p
               \<and> (\<exists>t \<in> set (topics p). lower t = lower (strip topic_input)))
            (problems d)))
   \<and> filter_problems now d diff_filter (Some []) only_due
       = filter_problems now d diff_filter None only_due"
proof (intro conjI impI)
  assume "tf \<noteq> []"
  then show "filter_problems now d diff_filter (Some tf) only_due
        = map fst (filter
            (\<lambda>(pid, p). selected now diff_filter None only_due p
               \<and> tf \<in> set (map lower (topics p)))
            (problems d))"
    by (rule filter_problems_topic)
next
  assume a: "lower (strip use_input) = ''y'' \<and> strip topic_input \<noteq> []"
  then have y: "lower (strip use_input) = ''y''" and t: "strip topic_input \<noteq> []"
    by simp_all
  from t have l: "lower (strip topic_input) \<noteq> []"
    by (simp add: lower_eq_Nil)
  show "choose_problem_candidates now d use_input diff_input topic_input due_input
        = map fst (filter
            (\<lambda>(pid, p).
               selected now
                 (if strip diff_input \<noteq> [] then normalize_difficulty (strip diff_input) else None)
                 None (lower (strip due_input) = ''y'') p
               \<and> (\<exists>t \<in> set (topics p). lower t = lower (strip topic_input)))
            (problems d))"
    unfolding choose_problem_candidates_def choose_problem_filters_topic [OF y t]
      prod.case filter_problems_topic [OF l] lowered_member
    by (rule refl)
next
  show "filter_problems now d diff_filter (Some []) only_due
       = filter_problems now d diff_filter None only_due"
    by (rule filter_problems_empty_topic)
qed

theorem filter_problems_topic_filter_witness:
  "''array'' \<noteq> []
   \<and> lower (strip ''y'') = ''y'' \<and> strip ''Array'' \<noteq> []
   \<and> map (topics \<circ> snd) (problems two_problem_catalog) = [[''array'', ''hash-table''], [''arrays'']]
   \<and> filter_problems (mk_datetime 2024 1 2 8 0 0 0) two_problem_catalog None (Some ''array'') False
       = map fst (filter
           (\<lambda>(pid, p). selected (mk_datetime 2024 1 2 8 0 0 0) None None False p
              \<and> ''array'' \<in> set (map lower (topics p)))
           (problems two_problem_catalog))
   \<and> choose_problem_candidates (mk_datetime 2024 1 2 8 0 0 0) two_problem_catalog
         ''y'' [] ''Array'' ''n''
       = map fst (filter
           (\<lambda>(pid, p).
              selected (mk_datetime 2024 1 2 8 0 0 0)
                (if strip [] \<noteq> [] then normalize_difficulty (strip []) else None)
                None (lower (strip ''n'') = ''y'') p
              \<and> (\<exists>t \<in> set (topics p). lower t = lower (strip ''Array'')))
           (problems two_problem_catalog))
   \<and> filter_problems (mk_datetime 2024 1 2 8 0 0 0) two_problem_catalog None (Some ''array'') False
       = [''two-sum'']
   \<and> choose_problem_candidates (mk_datetime 2024 1 2 8 0 0 0) two_problem_catalog
         ''y'' [] ''Array'' ''n''
       = [''two-sum'']
   \<and> choose_problem_candidates (mk_datetime 2024 1 2 8 0 0 0) two_problem_catalog
         ''y'' ''easy'' ''  ARRAY '' ''y''
       = [''two-sum'']
   \<and> choose_problem_candidates (mk_datetime 2024 1 2 8 0 0 0) two_problem_catalog
         ''y'' ''hard'' ''Array'' ''n''
       = []
   \<and> choose_problem_candidates (mk_datetime 2024 1 2 8 0 0 0) ecole_catalog
         ''y'' [] [CHR 0xE9, CHR ''c'', CHR ''o'', CHR ''l'', CHR ''e''] ''n''
       = [''word-break'']
   \<and> choose_problem_candidates (mk_datetime 2024 1 2 8 0 0 0) two_problem_catalog
         ''y'' [] [CHR 0xA0] ''n''
       = [''two-sum'', ''rotate-array'']"
proof -
  have h1: "''array'' \<noteq> []"
    by simp
  have h2: "lower (strip ''y'') = ''y''"
    by code_simp
  have h3: "strip ''Array'' \<noteq> []"
    by code_simp
  have e0: "map (topics \<circ> snd) (problems two_problem_catalog)
      = [[''array'', ''hash-table''], [''arrays'']]"
    by code_simp
  have e1: "filter_problems (mk_datetime 2024 1 2 8 0 0 0) two_problem_catalog None
      (Some ''array'') False = [''two-sum'']"
    by code_simp
  have e2: "choose_problem_candidates (mk_datetime 2024 1 2 8 0 0 0) two_problem_catalog
      ''y'' [] ''Array'' ''n'' = [''two-sum'']"
    by code_simp
  have e3: "choose_problem_candidates (mk_datetime 2024 1 2 8 0 0 0) two_problem_catalog
      ''y'' ''easy'' ''  ARRAY '' ''y'' = [''two-sum'']"
    by code_simp
  have e4: "choose_problem_candidates (mk_datetime 2024 1 2 8 0 0 0) two_problem_catalog
      ''y'' ''hard'' ''Array'' ''n'' = []"
    by code_simp
  have e5: "choose_problem_candidates (mk_datetime 2024 1 2 8 0 0 0) ecole_catalog
      ''y'' [] [CHR 0xE9, CHR ''c'', CHR ''o'', CHR ''l'', CHR ''e''] ''n'' = [''word-break'']"
    by code_simp
  have e6: "choose_problem_candidates (mk_datetime 2024 1 2 8 0 0 0) two_problem_catalog
      ''y'' [] [CHR 0xA0] ''n'' = [''two-sum'', ''rotate-array'']"
    by code_simp
  note t = filter_problems_topic_filter [of "''array''" "mk_datetime 2024 1 2 8 0 0 0"
      two_problem_catalog None False "''y''" "''Array''" "[]" "''n''"]
  note t1 = t [THEN conjunct1, THEN mp, OF h1]
  note t2 = t [THEN conjunct2, THEN conjunct1, THEN mp, OF conjI [OF h2 h3]]
  from h1 h2 h3 e0 t1 t2 e1 e2 e3 e4 e5 e6 show ?thesis by (intro conjI)
qed

subsection \<open>The invariant of the data model\<close>

lemma dict_set_sound:
  "list_all (sound \<circ> snd) ps \<Longrightarrow> sound v \<Longrightarrow> list_all (sound \<circ> snd) (dict_set ps k v)"
  by (induction ps) auto

lemma dict_get_sound: "list_all (sound \<circ> snd) ps \<Longrightarrow> dict_get ps k = Some v \<Longrightarrow> sound v"
  by (induction ps) (auto split: if_splits)

lemma fresh_sound:
  "sound \<lparr>title = ttl, slug = slg, url = lnk, difficulty = diff, topics = tps,
         attempts = 0, last_status = None, last_practiced = None, next_review = None\<rparr>"
  by (simp add: sound_def problem_invariant_def)

lemma practised_sound:
  "sound p \<Longrightarrow>
   sound (p\<lparr>attempts := attempts p + 1, last_status := Some st, last_practiced := Some t,
      next_review := Some nr\<rparr>)"
  by (simp add: sound_def problem_invariant_def)

lemma add_problem_sound:
  "list_all (sound \<circ> snd) (problems d) \<Longrightarrow>
   list_all (sound \<circ> snd) (problems (add_problem d ttl slg lnk diff tps))"
  by (simp add: add_problem_def dict_set_sound fresh_sound)

lemma start_practice_session_sound:
  assumes "list_all (sound \<circ> snd) (problems d)"
    and "start_practice_session d pid start_time end_time status notes review_clock = (r, d')"
  shows "list_all (sound \<circ> snd) (problems d')"
proof (cases pid)
  case None
  with assms show ?thesis by (simp add: start_practice_session_def)
next
  case (Some k)
  note pid = this
  show ?thesis
  proof (cases "dict_get (problems d) k")
    case None
    with pid assms show ?thesis by (simp add: start_practice_session_def Let_def)
  next
    case (Some p)
    note eff = start_practice_session_found [OF Some assms(2) [unfolded pid]]
    from assms(1) Some have "sound p" by (rule dict_get_sound)
    then have "sound (p\<lparr>attempts := attempts p + 1, last_status := Some status,
        last_practiced := Some (strftime end_time),
        next_review := Some (schedule_next_review review_clock (Some status) (difficulty p))\<rparr>)"
      by (rule practised_sound)
    with assms(1) show ?thesis
      unfolding eff(2) by (rule dict_set_sound)
  qed
qed

lemma reachable_sound: "reachable d \<Longrightarrow> list_all (sound \<circ> snd) (problems d)"
proof (induction rule: reachable.induct)
  case loaded
  show ?case by (simp add: empty_data_def)
next
  case (added d ttl slg lnk diff tps)
  from added.IH show ?case by (rule add_problem_sound)
next
  case (practised d pid start_time end_time status nts review_clock r d')
  from practised.IH practised.hyps(2) show ?case by (rule start_practice_session_sound)
qed

text \<open>
  Claim C8. Every problem record of every store the program can reach (from the empty
  store, by catalog upserts and recorded sessions) satisfies the invariant of the data
  model: attempts is 0 iff last\_status is null iff last\_practiced is null, and
  next\_review is set iff last\_practiced is set. The counter is never negative.
\<close>

theorem reachable_problem_invariant:
  "reachable d \<Longrightarrow> (k, p) \<in> set (problems d) \<Longrightarrow> problem_invariant p \<and> 0 \<le> attempts p"
proof -
  assume "reachable d" and "(k, p) \<in> set (problems d)"
  then have "sound p"
    using reachable_sound [of d] by (auto simp: list_all_iff)
  then show ?thesis by (simp add: sound_def)
qed

theorem reachable_problem_invariant_witness:
  "reachable solved_then_unsolved
   \<and> (''two-sum'',
        two_sum\<lparr>attempts := 2, last_status := Some ''unsolved'',
          last_practiced := Some (strftime (mk_datetime 2024 1 4 18 45 0 0)),
          next_review := Some (strftime (mk_datetime 2024 1 5 18 45 20 0))\<rparr>)
       \<in> set (problems solved_then_unsolved)
   \<and> problem_invariant
        (two_sum\<lparr>attempts := 2, last_status := Some ''unsolved'',
          last_practiced := Some (strftime (mk_datetime 2024 1 4 18 45 0 0)),
          next_review := Some (strftime (mk_datetime 2024 1 5 18 45 20 0))\<rparr>)
   \<and> 0 \<le> attempts
        (two_sum\<lparr>attempts := 2, last_status := Some ''unsolved'',
          last_practiced := Some (strftime (mk_datetime 2024 1 4 18 45 0 0)),
          next_review := Some (strftime (mk_datetime 2024 1 5 18 45 20 0))\<rparr>)"
proof -
  have r0: "reachable two_sum_catalog"
    unfolding two_sum_catalog_def by (rule added [OF loaded])
  have r1: "reachable (snd (start_practice_session two_sum_catalog (Some ''two-sum'')
          (mk_datetime 2024 1 1 10 0 0 0) (mk_datetime 2024 1 1 10 20 0 0) ''solved'' []
          (mk_datetime 2024 1 1 10 20 30 0)))"
    by (rule practised [OF r0 prod.collapse [symmetric]])
  have r2: "reachable solved_then_unsolved"
    unfolding solved_then_unsolved_def by (rule practised [OF r1 prod.collapse [symmetric]])
  have m: "(''two-sum'',
        two_sum\<lparr>attempts := 2, last_status := Some ''unsolved'',
          last_practiced := Some (strftime (mk_datetime 2024 1 4 18 45 0 0)),
          next_review := Some (strftime (mk_datetime 2024 1 5 18 45 20 0))\<rparr>)
       \<in> set (problems solved_then_unsolved)"
    by code_simp
  note t = reachable_problem_invariant [OF r2 m]
  from r2 m t [THEN conjunct1] t [THEN conjunct2] show ?thesis by (intro conjI)
qed

subsection \<open>Statistics\<close>

lemma stats_loop_solved:
  "snd (stats_loop ps by_difficulty n)
     = n + int (length (filter (\<lambda>(pid, p). last_status p = Some ''solved'') ps))"
  by (induction ps arbitrary: by_difficulty n) (auto simp: Let_def)

text \<open>
  Claim C3 against the code. The summary's total\_problems and total\_sessions are the
  sizes of the catalog and of the session log. The number printed as
  \<^verbatim>\<open>Solved at least once\<close> is the number of problems whose last\_status is solved: for
  the store with one problem that was solved in its first session and unsolved in its
  second, it is 0, while one problem has been solved in at least one session.
\<close>

theorem stats_overview_solved_is_last_status:
  "total_problems (fst (stats_overview d)) = length (problems d)
   \<and> total_sessions (fst (stats_overview d)) = length (sessions d)
   \<and> solved_at_least_once (fst (stats_overview d))
       = int (length (filter (\<lambda>(pid, p). last_status p = Some ''solved'') (problems d)))
   \<and> map s_status (sessions solved_then_unsolved) = [''solved'', ''unsolved'']
   \<and> map s_problem_id (sessions solved_then_unsolved) = [''two-sum'', ''two-sum'']
   \<and> map fst (problems solved_then_unsolved) = [''two-sum'']
   \<and> spec_solved_at_least_once solved_then_unsolved = 1
   \<and> solved_at_least_once (fst (stats_overview solved_then_unsolved)) = 0"
proof -
  have a: "total_problems (fst (stats_overview d)) = length (problems d)"
    by (simp add: stats_overview_def split: prod.splits)
  have b: "total_sessions (fst (stats_overview d)) = length (sessions d)"
    by (simp add: stats_overview_def split: prod.splits)
  have c: "solved_at_least_once (fst (stats_overview d))
       = int (length (filter (\<lambda>(pid, p). last_status p = Some ''solved'') (problems d)))"
    using stats_loop_solved [of "problems d" "[(''easy'', 0), (''medium'', 0), (''hard'', 0)]" 0]
    by (auto simp: stats_overview_def split: prod.splits)
  have e1: "map s_status (sessions solved_then_unsolved) = [''solved'', ''unsolved'']"
    by code_simp
  have e2: "map s_problem_id (sessions solved_then_unsolved) = [''two-sum'', ''two-sum'']"
    by code_simp
  have e3: "map fst (problems solved_then_unsolved) = [''two-sum'']"
    by code_simp
  have e4: "spec_solved_at_least_once solved_then_unsolved = 1"
    by code_simp
  have e5: "solved_at_least_once (fst (stats_overview solved_then_unsolved)) = 0"
    by code_simp
  from a b c e1 e2 e3 e4 e5 show ?thesis by (intro conjI)
qed

text \<open>
  Claim C10. \<^verbatim>\<open>stats_overview\<close> leaves the store as it is, a second call on the
  store it leaves gives the same summary, and on the empty store the summary is all
  zeros with no recent session.
\<close>

theorem stats_overview_pure:
  "snd (stats_overview d) = d
   \<and> fst (stats_overview (snd (stats_overview d))) = fst (stats_overview d)
   \<and> fst (stats_overview empty_data)
       = \<lparr>total_problems = 0, total_sessions = 0, easy_count = 0, medium_count = 0,
          hard_count = 0, solved_at_least_once = 0, last_sessions = []\<rparr>"
proof -
  have a: "snd (stats_overview d) = d" for d
    by (simp add: stats_overview_def split: prod.splits)
  have b: "fst (stats_overview empty_data)
       = \<lparr>total_problems = 0, total_sessions = 0, easy_count = 0, medium_count = 0,
          hard_count = 0, solved_at_least_once = 0, last_sessions = []\<rparr>"
    by (simp add: stats_overview_def empty_data_def count_of_def)
  show ?thesis
    by (simp add: a b)
qed

end
